theory Spec2Isabelle
  imports Complex_Main "HOL-Library.Extended_Nat"
begin

section \<open>Values of the host language\<close>

text \<open>
  The donut chart (\<^verbatim>\<open>components/DonutChart/Chart.tsx\<close>) and the tooltip formatter
  (\<^verbatim>\<open>TooltipContent\<close>) are React function components. A component is modelled as
  the function it is: from its props, its local state and what the hooks and helpers of
  other modules hand it at this render, to the element tree it returns.

  JavaScript numbers are read as reals (finite values; no rounding is modelled). The
  properties proved below only compare numbers with \<open>0\<close> and pass them along.
  \<open>undefined\<close> is \<open>None\<close>; where a value may be \<open>null\<close> as well as
  \<open>undefined\<close> the two are kept apart.
\<close>

datatype JSValue = JSString string | JSNumber real | JSNull | JSUndefined

text \<open>
  A template literal \<^verbatim>\<open>`${a}: ${b}`\<close> is kept as its parts, the fixed text and the
  substituted values in order, so that no number-to-string conversion has to be modelled.
\<close>

datatype TemplatePart = Quasi string | Subst JSValue

type_synonym TemplateLiteral = "TemplatePart list"

text \<open>Reading \<^verbatim>\<open>xs[i]\<close>: out of range the result is \<open>undefined\<close>.\<close>

definition at_index :: "'a list \<Rightarrow> nat \<Rightarrow> 'a option" where
  "at_index xs i = (if i < length xs then Some (xs ! i) else None)"

definition at_number :: "'a list \<Rightarrow> int \<Rightarrow> 'a option" where
  "at_number xs i = (if 0 \<le> i then at_index xs (nat i) else None)"

text \<open>
  The only exception the chart can raise on its own: reading a property of
  \<open>undefined\<close>.
\<close>

datatype RenderError = TypeError

text \<open>
  \<^verbatim>\<open>Array.prototype.map\<close> with a callback that may throw: the callbacks run in index
  order and the first exception ends the whole call.
\<close>

fun map_index :: "(nat \<Rightarrow> 'a \<Rightarrow> RenderError + 'b) \<Rightarrow> nat \<Rightarrow> 'a list \<Rightarrow> RenderError + 'b list" where
  "map_index f i [] = Inr []"
| "map_index f i (x # xs) =
     (case f i x of
        Inl e \<Rightarrow> Inl e
      | Inr y \<Rightarrow> (case map_index f (Suc i) xs of Inl e \<Rightarrow> Inl e | Inr ys \<Rightarrow> Inr (y # ys)))"

section \<open>Data model\<close>

text \<open>\<^verbatim>\<open>DataPoint\<close>: \<^verbatim>\<open>{key: number | string, value: number | null}\<close>.\<close>

datatype Key = KeyNumber real | KeyString string

record DataPoint =
  DataPoint_key :: Key
  DataPoint_value :: "real option"

text \<open>
  \<^verbatim>\<open>DataSeries\<close>: the fields the chart reads. \<open>'c\<close> is the type of colours
  (\<^verbatim>\<open>Color\<close>), which the chart only passes along.
\<close>

record 'c DataSeries =
  DataSeries_data :: "DataPoint list"
  DataSeries_name :: "string option"
  DataSeries_color :: "'c option"

record Dimensions =
  Dimensions_height :: real
  Dimensions_width :: real

text \<open>\<^verbatim>\<open>{...dimensions, x: 0, y: 0}\<close>\<close>

record BoundingRect = Dimensions +
  BoundingRect_x :: real
  BoundingRect_y :: real

definition withOrigin :: "Dimensions \<Rightarrow> BoundingRect" where
  "withOrigin d = \<lparr>Dimensions_height = Dimensions_height d, Dimensions_width = Dimensions_width d,
                    BoundingRect_x = 0, BoundingRect_y = 0\<rparr>"

text \<open>
  \<^verbatim>\<open>ChartState\<close> is declared in \<^verbatim>\<open>@shopify/polaris-viz-core\<close>, outside the given
  sources; the chart only tests \<^verbatim>\<open>state === ChartState.Success\<close>.
\<close>

datatype ChartState = Loading | Error | Success

text \<open>The fields of the selected theme that the chart reads.\<close>

record ArcTheme =
  ArcTheme_thickness :: real
  ArcTheme_cornerRadius :: real

record 'c GridTheme =
  GridTheme_color :: 'c

record 'c Theme =
  Theme_arc :: ArcTheme
  Theme_grid :: "'c GridTheme"

text \<open>
  The props of \<^verbatim>\<open>Chart\<close>. A prop with a default in the parameter list is optional
  here and the default is applied in the body, as the destructuring does. \<open>'f\<close> is the
  type of the functions the chart is handed and only passes along (formatters, render
  callbacks, the legend's setter); \<open>'m\<close> is \<^verbatim>\<open>ComparisonMetricProps\<close>.
\<close>

record ('c, 'f, 'm) ChartProps =
  data :: "'c DataSeries list"
  labelFormatter :: 'f
  legendPosition :: "string option"
  seriesNameFormatter :: 'f
  showLegend :: bool
  showLegendValues :: bool
  state :: ChartState
  theme :: string
  accessibilityLabel :: "string option"
  comparisonMetric :: "'m option"
  dimensions :: "Dimensions option"
  errorText :: "string option"
  legendFullWidth :: "bool option"
  renderInnerValueContent :: "'f option"
  renderLegendContent :: "'f option"
  renderHiddenLegendLabel :: "'f option"
  total :: "real option"

text \<open>The component's own state: \<^verbatim>\<open>useState<number>(-1)\<close>.\<close>

record LocalState =
  activeIndex :: int

definition initialState :: LocalState where
  "initialState = \<lparr>activeIndex = - 1\<rparr>"

section \<open>What other modules supply\<close>

text \<open>
  \<^verbatim>\<open>pie\<close> comes from the package \<^verbatim>\<open>d3-shape\<close>; \<^verbatim>\<open>clamp\<close>, \<^verbatim>\<open>useTheme\<close>,
  \<^verbatim>\<open>useUniqueId\<close>, \<^verbatim>\<open>useChartContext\<close>, \<^verbatim>\<open>COLOR_VISION_SINGLE_ITEM\<close> and
  \<^verbatim>\<open>THIN_ARC_CORNER_THICKNESS\<close> from \<^verbatim>\<open>@shopify/polaris-viz-core\<close>;
  \<^verbatim>\<open>getSeriesColors\<close>, \<^verbatim>\<open>useLegend\<close>, \<^verbatim>\<open>getAnimationDelayForItems\<close> and
  \<^verbatim>\<open>getContainerAlignmentForLegend\<close> from modules of the library that are not among
  the given sources. They are parameters of the model: the chart is verified for every
  value they may take.
\<close>

text \<open>An element of d3's pie layout: \<^verbatim>\<open>PieArcDatum<DataPoint>\<close>.\<close>

record PieArcDatum =
  PieArcDatum_data :: DataPoint
  PieArcDatum_value :: real
  PieArcDatum_index :: nat
  PieArcDatum_startAngle :: real
  PieArcDatum_endAngle :: real
  PieArcDatum_padAngle :: real

type_synonym CSSProperties = "string \<Rightarrow> string option"

record 'c LegendSeriesGroup =
  LegendSeriesGroup_series :: "'c DataSeries list"
  LegendSeriesGroup_shape :: string

record ('c, 'f) UseLegendProps =
  UseLegendProps_data :: "'c LegendSeriesGroup list"
  UseLegendProps_dimensions :: Dimensions
  UseLegendProps_showLegend :: bool
  UseLegendProps_direction :: string
  UseLegendProps_colors :: "'c list"
  UseLegendProps_maxWidth :: real
  UseLegendProps_seriesNameFormatter :: 'f

text \<open>What \<^verbatim>\<open>useLegend\<close> returns; \<open>'l\<close> is the type of the legend items.\<close>

record ('f, 'l) UseLegendResult =
  UseLegendResult_height :: real
  UseLegendResult_width :: real
  UseLegendResult_legend :: 'l
  UseLegendResult_setLegendDimensions :: 'f
  UseLegendResult_isLegendMounted :: bool

record ('c, 'f, 'l) Env =
  useChartContext_shouldAnimate :: bool
  useUniqueId :: "string \<Rightarrow> string"
  useTheme :: "'c Theme"
  clamp :: "nat \<Rightarrow> nat \<Rightarrow> enat \<Rightarrow> nat"
  getSeriesColors :: "nat \<Rightarrow> 'c Theme \<Rightarrow> 'c list"
  useLegend :: "('c, 'f) UseLegendProps \<Rightarrow> ('f, 'l) UseLegendResult"
  pie :: "DataPoint list \<Rightarrow> PieArcDatum list"
  getAnimationDelayForItems :: "nat \<Rightarrow> real"
  getContainerAlignmentForLegend :: "string \<Rightarrow> CSSProperties"
  COLOR_VISION_SINGLE_ITEM :: string
  THIN_ARC_CORNER_THICKNESS :: real

section \<open>The element tree\<close>

record 'c ArcProps =
  Arc_isAnimated :: bool
  Arc_animationDelay :: "real option"
  Arc_index :: "nat option"
  Arc_activeIndex :: "int option"
  Arc_width :: real
  Arc_height :: real
  Arc_radius :: real
  Arc_startAngle :: real
  Arc_endAngle :: real
  Arc_color :: "'c option"
  Arc_cornerRadius :: real
  Arc_thickness :: real

text \<open>
  \<^verbatim>\<open>activeValue\<close> is \<^verbatim>\<open>points[activeIndex]?.value\<close>: \<open>None\<close> when there is no such
  point (\<open>undefined\<close>), \<open>Some None\<close> when its value is \<open>null\<close>.
\<close>

record ('f, 'm) InnerValueProps =
  InnerValue_activeValue :: "real option option"
  InnerValue_activeIndex :: int
  InnerValue_isAnimated :: bool
  InnerValue_totalValue :: real
  InnerValue_comparisonMetric :: "'m option"
  InnerValue_labelFormatter :: 'f
  InnerValue_renderInnerValueContent :: "'f option"
  InnerValue_diameter :: real
  InnerValue_dimensions :: Dimensions

record ChartSkeletonProps =
  ChartSkeleton_dimensions :: Dimensions
  ChartSkeleton_state :: ChartState
  ChartSkeleton_type :: string
  ChartSkeleton_errorText :: "string option"
  ChartSkeleton_theme :: string

record 'f ColorVisionInteractionMethods =
  getColorVisionStyles :: 'f
  getColorVisionEventAttrs :: 'f

record ('c, 'f) LegendValuesProps =
  LegendValues_data :: "'c DataSeries list"
  LegendValues_activeIndex :: int
  LegendValues_dimensions :: BoundingRect
  LegendValues_legendFullWidth :: bool
  LegendValues_labelFormatter :: 'f
  LegendValues_getColorVisionStyles :: 'f
  LegendValues_getColorVisionEventAttrs :: 'f
  LegendValues_renderHiddenLegendLabel :: "'f option"
  LegendValues_seriesNameFormatter :: 'f

text \<open>
  The \<^verbatim>\<open>renderLegendContent\<close> prop of the legend container is either the chart's own
  closure \<^verbatim>\<open>renderLegendContentWithValues\<close>, which renders a \<^verbatim>\<open>LegendValues\<close>
  element from the interaction methods it is called with, or the function the host gave.
\<close>

datatype ('c, 'f) RenderLegendContent =
    WithValues "'f ColorVisionInteractionMethods \<Rightarrow> ('c, 'f) LegendValuesProps"
  | FromHost 'f

record ('c, 'f, 'l) LegendContainerProps =
  LegendContainer_fullWidth :: bool
  LegendContainer_onDimensionChange :: 'f
  LegendContainer_colorVisionType :: string
  LegendContainer_data :: 'l
  LegendContainer_direction :: string
  LegendContainer_position :: string
  LegendContainer_maxWidth :: real
  LegendContainer_enableHideOverflow :: bool
  LegendContainer_dimensions :: BoundingRect
  LegendContainer_renderLegendContent :: "('c, 'f) RenderLegendContent option"

record SvgAttrs =
  Svg_viewBox :: TemplateLiteral
  Svg_height :: real
  Svg_width :: real

record GAttrs =
  G_key :: "TemplateLiteral option"
  G_className :: "string option"
  G_ariaHidden :: bool
  G_ariaLabel :: "TemplateLiteral option"
  G_role :: "string option"

text \<open>
  The elements the chart creates. A child expression \<^verbatim>\<open>cond && <X/>\<close> whose condition
  is false renders nothing and is left out of the list of children.
\<close>

datatype ('c, 'f, 'm, 'l) Element =
    Div string "CSSProperties option" "('c, 'f, 'm, 'l) Element list"
  | Fragment "('c, 'f, 'm, 'l) Element list"
  | Span string string
  | Svg SvgAttrs "('c, 'f, 'm, 'l) Element list"
  | G GAttrs "('c, 'f, 'm, 'l) Element list"
  | Arc "'c ArcProps"
  | InnerValue "('f, 'm) InnerValueProps"
  | ChartSkeleton ChartSkeletonProps
  | LegendContainer "('c, 'f, 'l) LegendContainerProps"

section \<open>The donut chart\<close>

text \<open>
  \<^verbatim>\<open>Math.PI\<close> is the double nearest to \<open>\<pi>\<close>, written here as the fraction it is;
  doubling a double is exact.
\<close>

definition Math_PI :: real where
  "Math_PI = 884279719003555 / 2 ^ 48"

definition FULL_CIRCLE :: real where
  "FULL_CIRCLE = Math_PI * 2"

definition RADIUS_PADDING :: real where
  "RADIUS_PADDING = 20"

definition SMALL_CHART_HEIGHT_THRESHOLD :: real where
  "SMALL_CHART_HEIGHT_THRESHOLD = 150"

subsection \<open>Hooks the chart calls\<close>

record ColorVisionEventsOptions =
  ColorVisionEvents_enabled :: bool
  ColorVisionEvents_dimensions :: BoundingRect

record ColorVisionEventDetail =
  ColorVisionEventDetail_index :: int

record ColorVisionEventReturn =
  ColorVisionEventReturn_detail :: ColorVisionEventDetail

text \<open>
  The state setter of \<^verbatim>\<open>useState\<close>: the next render sees the new value. The handler
  the chart registers with \<^verbatim>\<open>useWatchColorVisionEvents\<close> is
  \<^verbatim>\<open>({detail}) => { setActiveIndex(detail.index) }\<close>.
\<close>

definition setActiveIndex :: "int \<Rightarrow> LocalState \<Rightarrow> LocalState" where
  "setActiveIndex i st = st\<lparr>activeIndex := i\<rparr>"

definition onIndexChange :: "ColorVisionEventReturn \<Rightarrow> LocalState \<Rightarrow> LocalState" where
  "onIndexChange ev = setActiveIndex (ColorVisionEventDetail_index (ColorVisionEventReturn_detail ev))"

record WatchColorVisionEventsOptions =
  WatchColorVisionEvents_type :: string
  WatchColorVisionEvents_onIndexChange :: "ColorVisionEventReturn \<Rightarrow> LocalState \<Rightarrow> LocalState"

text \<open>
  One render of the chart: the two hook registrations it makes on every render, and what
  it returns: an exception, \<^verbatim>\<open>null\<close> (\<open>Inr None\<close>) or an element.
\<close>

record ('c, 'f, 'm, 'l) ChartRender =
  called_useColorVisionEvents :: ColorVisionEventsOptions
  called_useWatchColorVisionEvents :: WatchColorVisionEventsOptions
  returned :: "RenderError + ('c, 'f, 'm, 'l) Element option"

subsection \<open>Values computed in the body\<close>

text \<open>\<^verbatim>\<open>data.reduce((prev, {data}) => prev.concat(data), [])\<close>\<close>

definition points :: "'c DataSeries list \<Rightarrow> DataPoint list" where
  "points d = foldl (\<lambda>prev s. prev @ DataSeries_data s) [] d"

text \<open>\<^verbatim>\<open>points.every(({value}) => value === 0)\<close>\<close>

definition isEveryValueZero :: "DataPoint list \<Rightarrow> bool" where
  "isEveryValueZero pts = list_all (\<lambda>p. DataPoint_value p = Some 0) pts"

definition emptyState :: "PieArcDatum list \<Rightarrow> DataPoint list \<Rightarrow> bool" where
  "emptyState pieChartData pts \<longleftrightarrow> length pieChartData = 0 \<or> isEveryValueZero pts"

text \<open>\<^verbatim>\<open>total || points.reduce((acc, {value}) => (value ?? 0) + acc, 0)\<close>\<close>

definition totalValue :: "real option \<Rightarrow> DataPoint list \<Rightarrow> real" where
  "totalValue t pts =
     (let s = foldl (\<lambda>acc p. (case DataPoint_value p of None \<Rightarrow> 0 | Some v \<Rightarrow> v) + acc) 0 pts
      in case t of None \<Rightarrow> s | Some v \<Rightarrow> if v \<noteq> 0 then v else s)"

text \<open>\<^verbatim>\<open>points[activeIndex]?.value\<close>\<close>

definition activeValue :: "DataPoint list \<Rightarrow> int \<Rightarrow> real option option" where
  "activeValue pts i = (case at_number pts i of None \<Rightarrow> None | Some p \<Rightarrow> Some (DataPoint_value p))"

definition legendDirection :: "string \<Rightarrow> string" where
  "legendDirection position =
     (if position = ''right'' \<or> position = ''left'' then ''vertical'' else ''horizontal'')"

definition thickness :: "real \<Rightarrow> real \<Rightarrow> real \<Rightarrow> real" where
  "thickness height maxThickness thin =
     (let dynamicThickness = height / 10
      in if height > SMALL_CHART_HEIGHT_THRESHOLD then min dynamicThickness maxThickness else thin)"

definition key_value :: "Key \<Rightarrow> JSValue" where
  "key_value k = (case k of KeyNumber n \<Rightarrow> JSNumber n | KeyString s \<Rightarrow> JSString s)"

definition name_value :: "string option \<Rightarrow> JSValue" where
  "name_value n = (case n of None \<Rightarrow> JSUndefined | Some s \<Rightarrow> JSString s)"

definition number_value :: "real option \<Rightarrow> JSValue" where
  "number_value v = (case v of None \<Rightarrow> JSNull | Some n \<Rightarrow> JSNumber n)"

subsection \<open>One slice\<close>

text \<open>
  The callback of \<^verbatim>\<open>pieChartData.map\<close>. The colour is read with
  \<^verbatim>\<open>data[index]?.color ?? seriesColor[index]\<close>, which tolerates a missing series; the
  name is read with \<^verbatim>\<open>data[index].name\<close>, which throws when there is none.
\<close>

definition sliceColor :: "'c DataSeries list \<Rightarrow> 'c list \<Rightarrow> nat \<Rightarrow> 'c option" where
  "sliceColor d seriesColor index =
     (case (case at_index d index of None \<Rightarrow> None | Some s \<Rightarrow> DataSeries_color s) of
        Some c \<Rightarrow> Some c
      | None \<Rightarrow> at_index seriesColor index)"

definition sliceArc ::
  "bool \<Rightarrow> real \<Rightarrow> 'c DataSeries list \<Rightarrow> 'c list \<Rightarrow> int \<Rightarrow> real \<Rightarrow> real \<Rightarrow> real \<Rightarrow> real
    \<Rightarrow> nat \<Rightarrow> PieArcDatum \<Rightarrow> 'c ArcProps" where
  "sliceArc shouldAnimate delay d colors active diameter radius cornerRadius thick index datum =
     \<lparr>Arc_isAnimated = shouldAnimate,
      Arc_animationDelay = Some delay,
      Arc_index = Some index,
      Arc_activeIndex = Some active,
      Arc_width = diameter,
      Arc_height = diameter,
      Arc_radius = radius,
      Arc_startAngle = PieArcDatum_startAngle datum,
      Arc_endAngle = PieArcDatum_endAngle datum,
      Arc_color = sliceColor d colors index,
      Arc_cornerRadius = cornerRadius,
      Arc_thickness = thick\<rparr>"

definition slice ::
  "bool \<Rightarrow> real \<Rightarrow> string \<Rightarrow> 'c DataSeries list \<Rightarrow> 'c list \<Rightarrow> int \<Rightarrow> real \<Rightarrow> real \<Rightarrow> real \<Rightarrow> real
    \<Rightarrow> nat \<Rightarrow> PieArcDatum \<Rightarrow> RenderError + ('c, 'f, 'm, 'l) Element" where
  "slice shouldAnimate delay chartId d colors active diameter radius cornerRadius thick index datum =
     (let pieData = PieArcDatum_data datum
      in case at_index d index of
           None \<Rightarrow> Inl TypeError
         | Some series \<Rightarrow>
             (let name = DataSeries_name series;
                  label = [Subst (name_value name), Quasi '': '', Subst (key_value (DataPoint_key pieData)),
                           Quasi '' - '', Subst (number_value (DataPoint_value pieData))]
              in Inr (G \<lparr>G_key = Some [Subst (JSString chartId), Quasi ''-arc-'', Subst (JSNumber (real index))],
                         G_className = Some ''DonutChart'',
                         G_ariaHidden = False,
                         G_ariaLabel = Some label,
                         G_role = Some ''img''\<rparr>
                        [Arc (sliceArc shouldAnimate delay d colors active diameter radius
                                cornerRadius thick index datum)])))"

subsection \<open>Values taken from the props, the theme and the legend\<close>

definition positionOf :: "('c, 'f, 'm) ChartProps \<Rightarrow> string" where
  "positionOf props = (case legendPosition props of None \<Rightarrow> ''right'' | Some p \<Rightarrow> p)"

definition dimensionsOf :: "('c, 'f, 'm) ChartProps \<Rightarrow> Dimensions" where
  "dimensionsOf props =
     (case dimensions props of
        None \<Rightarrow> \<lparr>Dimensions_height = 0, Dimensions_width = 0\<rparr>
      | Some d \<Rightarrow> d)"

definition fullWidthOf :: "('c, 'f, 'm) ChartProps \<Rightarrow> bool" where
  "fullWidthOf props = (case legendFullWidth props of None \<Rightarrow> False | Some b \<Rightarrow> b)"

definition labelOf :: "('c, 'f, 'm) ChartProps \<Rightarrow> string" where
  "labelOf props = (case accessibilityLabel props of None \<Rightarrow> [] | Some a \<Rightarrow> a)"

definition maxLegendWidth :: "('c, 'f, 'm) ChartProps \<Rightarrow> real" where
  "maxLegendWidth props =
     (if legendDirection (positionOf props) = ''vertical''
      then Dimensions_width (dimensionsOf props) / 2 else 0)"

text \<open>
  \<^verbatim>\<open>seriesColor\<close>: the resolver is asked for \<^verbatim>\<open>clamp({amount: data.length, min: 1,
  max: Infinity})\<close> colours of the selected theme.
\<close>

definition seriesColor :: "('c, 'f, 'l) Env \<Rightarrow> ('c, 'f, 'm) ChartProps \<Rightarrow> 'c list" where
  "seriesColor env props =
     (let seriesCount = clamp env (length (data props)) 1 \<infinity>
      in getSeriesColors env seriesCount (useTheme env))"

text \<open>The call of \<^verbatim>\<open>useLegend\<close> and what it returns at this render.\<close>

definition negotiated ::
  "('c, 'f, 'l) Env \<Rightarrow> ('c, 'f, 'm) ChartProps \<Rightarrow> ('f, 'l) UseLegendResult" where
  "negotiated env props =
     useLegend env
       \<lparr>UseLegendProps_data =
          [\<lparr>LegendSeriesGroup_series = data props, LegendSeriesGroup_shape = ''Bar''\<rparr>],
        UseLegendProps_dimensions = dimensionsOf props,
        UseLegendProps_showLegend = showLegend props,
        UseLegendProps_direction = legendDirection (positionOf props),
        UseLegendProps_colors = seriesColor env props,
        UseLegendProps_maxWidth = maxLegendWidth props,
        UseLegendProps_seriesNameFormatter = seriesNameFormatter props\<rparr>"

text \<open>\<^verbatim>\<open>Math.min(height, width)\<close> of the negotiated height and width.\<close>

definition diameter :: "('c, 'f, 'l) Env \<Rightarrow> ('c, 'f, 'm) ChartProps \<Rightarrow> real" where
  "diameter env props =
     min (UseLegendResult_height (negotiated env props)) (UseLegendResult_width (negotiated env props))"

definition arcThickness :: "('c, 'f, 'l) Env \<Rightarrow> ('c, 'f, 'm) ChartProps \<Rightarrow> real" where
  "arcThickness env props =
     thickness (UseLegendResult_height (negotiated env props))
       (ArcTheme_thickness (Theme_arc (useTheme env))) (THIN_ARC_CORNER_THICKNESS env)"

text \<open>\<^verbatim>\<open>createPie(points)\<close>\<close>

definition pieChartData :: "('c, 'f, 'l) Env \<Rightarrow> ('c, 'f, 'm) ChartProps \<Rightarrow> PieArcDatum list" where
  "pieChartData env props = pie env (points (data props))"

subsection \<open>The pieces of the element tree\<close>

text \<open>The arc of the placeholder ring of the empty state.\<close>

definition placeholderArc :: "('c, 'f, 'l) Env \<Rightarrow> ('c, 'f, 'm) ChartProps \<Rightarrow> 'c ArcProps" where
  "placeholderArc env props =
     \<lparr>Arc_isAnimated = useChartContext_shouldAnimate env,
      Arc_animationDelay = None,
      Arc_index = None,
      Arc_activeIndex = None,
      Arc_width = diameter env props,
      Arc_height = diameter env props,
      Arc_radius = diameter env props / 2,
      Arc_startAngle = 0,
      Arc_endAngle = FULL_CIRCLE,
      Arc_color = Some (GridTheme_color (Theme_grid (useTheme env))),
      Arc_cornerRadius = ArcTheme_cornerRadius (Theme_arc (useTheme env)),
      Arc_thickness = arcThickness env props\<rparr>"

text \<open>
  The children of \<^verbatim>\<open><g className={styles.DonutChart}>\<close>: in the empty state the
  \<^verbatim>\<open>aria-hidden\<close> group with the placeholder, otherwise
  \<^verbatim>\<open>pieChartData.map(...)\<close>, which may throw.
\<close>

definition shapes ::
  "('c, 'f, 'l) Env \<Rightarrow> ('c, 'f, 'm) ChartProps \<Rightarrow> LocalState
    \<Rightarrow> RenderError + ('c, 'f, 'm, 'l) Element list" where
  "shapes env props st =
     (if emptyState (pieChartData env props) (points (data props)) then
        Inr [G \<lparr>G_key = None, G_className = None, G_ariaHidden = True, G_ariaLabel = None,
                G_role = None\<rparr>
               [Arc (placeholderArc env props)]]
      else
        map_index
          (slice (useChartContext_shouldAnimate env)
             (getAnimationDelayForItems env (length (pieChartData env props)))
             (useUniqueId env ''Donut'') (data props) (seriesColor env props) (activeIndex st)
             (diameter env props) (diameter env props / 2)
             (ArcTheme_cornerRadius (Theme_arc (useTheme env))) (arcThickness env props))
          0 (pieChartData env props))"

text \<open>
  The props that the callbacks of \<^verbatim>\<open>pieChartData.map\<close> pass to \<^verbatim>\<open>Arc\<close>, one for
  each element of the pie layout, in its order.
\<close>

definition sliceArcsOf ::
  "('c, 'f, 'l) Env \<Rightarrow> ('c, 'f, 'm) ChartProps \<Rightarrow> LocalState \<Rightarrow> 'c ArcProps list" where
  "sliceArcsOf env props st =
     map (\<lambda>(index, datum).
            sliceArc (useChartContext_shouldAnimate env)
              (getAnimationDelayForItems env (length (pieChartData env props)))
              (data props) (seriesColor env props) (activeIndex st)
              (diameter env props) (diameter env props / 2)
              (ArcTheme_cornerRadius (Theme_arc (useTheme env))) (arcThickness env props)
              index datum)
         (List.enumerate 0 (pieChartData env props))"

text \<open>The children of \<^verbatim>\<open><svg>\<close>: \<^verbatim>\<open>isLegendMounted && <g ...>\<close>.\<close>

definition svgChildren ::
  "('c, 'f, 'l) Env \<Rightarrow> ('c, 'f, 'm) ChartProps \<Rightarrow> LocalState
    \<Rightarrow> RenderError + ('c, 'f, 'm, 'l) Element list" where
  "svgChildren env props st =
     (if UseLegendResult_isLegendMounted (negotiated env props) then
        (case shapes env props st of
           Inl e \<Rightarrow> Inl e
         | Inr ss \<Rightarrow>
             Inr [G \<lparr>G_key = None, G_className = Some ''DonutChart'', G_ariaHidden = False,
                     G_ariaLabel = None, G_role = None\<rparr> ss])
      else Inr [])"

definition svgAttrs :: "('c, 'f, 'l) Env \<Rightarrow> ('c, 'f, 'm) ChartProps \<Rightarrow> SvgAttrs" where
  "svgAttrs env props =
     (let minX = - 40;
          minY = - 40;
          viewBoxHeight = diameter env props + RADIUS_PADDING;
          viewBoxWidth = diameter env props + RADIUS_PADDING
      in \<lparr>Svg_viewBox =
            [Subst (JSNumber minX), Quasi '' '', Subst (JSNumber minY), Quasi '' '',
             Subst (JSNumber viewBoxWidth), Quasi '' '', Subst (JSNumber viewBoxHeight)],
          Svg_height = diameter env props,
          Svg_width = diameter env props\<rparr>)"

definition innerValueProps ::
  "('c, 'f, 'l) Env \<Rightarrow> ('c, 'f, 'm) ChartProps \<Rightarrow> LocalState \<Rightarrow> ('f, 'm) InnerValueProps" where
  "innerValueProps env props st =
     \<lparr>InnerValue_activeValue = activeValue (points (data props)) (activeIndex st),
      InnerValue_activeIndex = activeIndex st,
      InnerValue_isAnimated = useChartContext_shouldAnimate env,
      InnerValue_totalValue = totalValue (total props) (points (data props)),
      InnerValue_comparisonMetric = comparisonMetric props,
      InnerValue_labelFormatter = labelFormatter props,
      InnerValue_renderInnerValueContent = renderInnerValueContent props,
      InnerValue_diameter = diameter env props,
      InnerValue_dimensions = dimensionsOf props\<rparr>"

text \<open>
  The children of \<^verbatim>\<open><div className={styles.Donut}>\<close>: in the success state the
  hidden label, the drawing and the inner value; otherwise the skeleton.
\<close>

definition donutChildren ::
  "('c, 'f, 'l) Env \<Rightarrow> ('c, 'f, 'm) ChartProps \<Rightarrow> LocalState
    \<Rightarrow> RenderError + ('c, 'f, 'm, 'l) Element list" where
  "donutChildren env props st =
     (if state props = Success then
        (case svgChildren env props st of
           Inl e \<Rightarrow> Inl e
         | Inr cs \<Rightarrow>
             Inr [Fragment
                   [Span ''VisuallyHidden'' (labelOf props),
                    Svg (svgAttrs env props) cs,
                    InnerValue (innerValueProps env props st)]])
      else
        Inr [ChartSkeleton
              \<lparr>ChartSkeleton_dimensions =
                 \<lparr>Dimensions_height = diameter env props, Dimensions_width = diameter env props\<rparr>,
               ChartSkeleton_state = state props,
               ChartSkeleton_type = ''Donut'',
               ChartSkeleton_errorText = errorText props,
               ChartSkeleton_theme = theme props\<rparr>])"

text \<open>
  The closure \<^verbatim>\<open>renderLegendContentWithValues\<close>: called by the legend container with
  the interaction methods, it renders \<^verbatim>\<open>LegendValues\<close> with the chart's data and its
  current \<^verbatim>\<open>activeIndex\<close>.
\<close>

definition renderLegendContentWithValues ::
  "('c, 'f, 'm) ChartProps \<Rightarrow> LocalState
    \<Rightarrow> 'f ColorVisionInteractionMethods \<Rightarrow> ('c, 'f) LegendValuesProps" where
  "renderLegendContentWithValues props st methods =
     \<lparr>LegendValues_data = data props,
      LegendValues_activeIndex = activeIndex st,
      LegendValues_dimensions = withOrigin (dimensionsOf props),
      LegendValues_legendFullWidth = fullWidthOf props,
      LegendValues_labelFormatter = labelFormatter props,
      LegendValues_getColorVisionStyles = getColorVisionStyles methods,
      LegendValues_getColorVisionEventAttrs = getColorVisionEventAttrs methods,
      LegendValues_renderHiddenLegendLabel = renderHiddenLegendLabel props,
      LegendValues_seriesNameFormatter = seriesNameFormatter props\<rparr>"

text \<open>The props of \<^verbatim>\<open><LegendContainer>\<close>.\<close>

definition legendContainerProps ::
  "('c, 'f, 'l) Env \<Rightarrow> ('c, 'f, 'm) ChartProps \<Rightarrow> LocalState \<Rightarrow> ('c, 'f, 'l) LegendContainerProps" where
  "legendContainerProps env props st =
     (let direction = legendDirection (positionOf props);
          shouldRenderLegendContentWithValues =
            (renderLegendContent props = None \<and> showLegendValues props \<and> direction = ''vertical'');
          isCornerPosition = (CHR ''-'' \<in> set (positionOf props))
      in \<lparr>LegendContainer_fullWidth = fullWidthOf props,
          LegendContainer_onDimensionChange = UseLegendResult_setLegendDimensions (negotiated env props),
          LegendContainer_colorVisionType = COLOR_VISION_SINGLE_ITEM env,
          LegendContainer_data = UseLegendResult_legend (negotiated env props),
          LegendContainer_direction = direction,
          LegendContainer_position = positionOf props,
          LegendContainer_maxWidth = maxLegendWidth props,
          LegendContainer_enableHideOverflow = (\<not> isCornerPosition),
          LegendContainer_dimensions = withOrigin (dimensionsOf props),
          LegendContainer_renderLegendContent =
            (if shouldRenderLegendContentWithValues
             then Some (WithValues (renderLegendContentWithValues props st))
             else (case renderLegendContent props of
                     None \<Rightarrow> None
                   | Some f \<Rightarrow> Some (FromHost f)))\<rparr>)"

text \<open>
  \<^verbatim>\<open>{...containerAlignmentStyle, gap: legendDirection === 'vertical' ? '16px' :
  undefined}\<close>
\<close>

definition dynamicStyles :: "('c, 'f, 'l) Env \<Rightarrow> ('c, 'f, 'm) ChartProps \<Rightarrow> CSSProperties" where
  "dynamicStyles env props =
     (getContainerAlignmentForLegend env (positionOf props))
       (''gap'' := (if legendDirection (positionOf props) = ''vertical'' then Some ''16px'' else None))"

subsection \<open>The component\<close>

text \<open>
  \<^verbatim>\<open>Chart\<close>. The hooks run first, on every render: \<^verbatim>\<open>useLegend\<close>, then
  \<^verbatim>\<open>useColorVisionEvents\<close>, enabled when \<^verbatim>\<open>Boolean(width && height &&
  isLegendMounted)\<close>, then \<^verbatim>\<open>useWatchColorVisionEvents\<close>. Then
  \<^verbatim>\<open>if (!width || !height) return null\<close>, and then the element tree.
\<close>

definition Chart ::
  "('c, 'f, 'l) Env \<Rightarrow> ('c, 'f, 'm) ChartProps \<Rightarrow> LocalState \<Rightarrow> ('c, 'f, 'm, 'l) ChartRender" where
  "Chart env props st =
     (let height = UseLegendResult_height (negotiated env props);
          width = UseLegendResult_width (negotiated env props);
          isLegendMounted = UseLegendResult_isLegendMounted (negotiated env props);
          shouldUseColorVisionEvents = (width \<noteq> 0 \<and> height \<noteq> 0 \<and> isLegendMounted)
      in \<lparr>called_useColorVisionEvents =
            \<lparr>ColorVisionEvents_enabled = shouldUseColorVisionEvents,
             ColorVisionEvents_dimensions = withOrigin (dimensionsOf props)\<rparr>,
          called_useWatchColorVisionEvents =
            \<lparr>WatchColorVisionEvents_type = COLOR_VISION_SINGLE_ITEM env,
             WatchColorVisionEvents_onIndexChange = onIndexChange\<rparr>,
          returned =
            (if width = 0 \<or> height = 0 then Inr None
             else
               (case donutChildren env props st of
                  Inl e \<Rightarrow> Inl e
                | Inr cs \<Rightarrow>
                    Inr (Some (Div ''DonutWrapper'' (Some (dynamicStyles env props))
                      (Div ''Donut'' None cs #
                       (if showLegend props
                        then [LegendContainer (legendContainerProps env props st)]
                        else []))))))\<rparr>)"

subsection \<open>Reading an element tree\<close>

text \<open>All nodes of a tree, in document order.\<close>

fun nodes :: "('c, 'f, 'm, 'l) Element \<Rightarrow> ('c, 'f, 'm, 'l) Element list" where
  "nodes (Div c s cs) = Div c s cs # concat (map nodes cs)"
| "nodes (Fragment cs) = Fragment cs # concat (map nodes cs)"
| "nodes (Svg a cs) = Svg a cs # concat (map nodes cs)"
| "nodes (G a cs) = G a cs # concat (map nodes cs)"
| "nodes e = [e]"

text \<open>
  The \<^verbatim>\<open>Arc\<close> elements of a tree in document order, each with whether it stands
  inside an \<^verbatim>\<open>aria-hidden\<close> group. The placeholder ring is the hidden one; a slice is
  an arc that is not hidden.
\<close>

fun arcsWithin :: "bool \<Rightarrow> ('c, 'f, 'm, 'l) Element \<Rightarrow> (bool \<times> 'c ArcProps) list" where
  "arcsWithin h (Div c s cs) = concat (map (arcsWithin h) cs)"
| "arcsWithin h (Fragment cs) = concat (map (arcsWithin h) cs)"
| "arcsWithin h (Svg a cs) = concat (map (arcsWithin h) cs)"
| "arcsWithin h (G a cs) = concat (map (arcsWithin (h \<or> G_ariaHidden a)) cs)"
| "arcsWithin h (Arc a) = [(h, a)]"
| "arcsWithin h e = []"

definition placeholderArcs :: "('c, 'f, 'm, 'l) Element \<Rightarrow> 'c ArcProps list" where
  "placeholderArcs e = map snd (filter fst (arcsWithin False e))"

definition sliceArcs :: "('c, 'f, 'm, 'l) Element \<Rightarrow> 'c ArcProps list" where
  "sliceArcs e = map snd (filter (\<lambda>x. \<not> fst x) (arcsWithin False e))"

definition legendContainers ::
  "('c, 'f, 'm, 'l) Element \<Rightarrow> ('c, 'f, 'l) LegendContainerProps list" where
  "legendContainers e =
     concat (map (\<lambda>n. case n of LegendContainer p \<Rightarrow> [p] | _ \<Rightarrow> []) (nodes e))"

definition innerValues :: "('c, 'f, 'm, 'l) Element \<Rightarrow> ('f, 'm) InnerValueProps list" where
  "innerValues e = concat (map (\<lambda>n. case n of InnerValue p \<Rightarrow> [p] | _ \<Rightarrow> []) (nodes e))"

definition svgs :: "('c, 'f, 'm, 'l) Element \<Rightarrow> SvgAttrs list" where
  "svgs e = concat (map (\<lambda>n. case n of Svg a cs \<Rightarrow> [a] | _ \<Rightarrow> []) (nodes e))"

text \<open>
  The \<^verbatim>\<open>LegendValues\<close> elements a tree gives rise to: one for each legend container
  whose \<^verbatim>\<open>renderLegendContent\<close> is the chart's own closure, rendered with the
  interaction methods the container calls it with.
\<close>

definition legendValues ::
  "'f ColorVisionInteractionMethods \<Rightarrow> ('c, 'f, 'm, 'l) Element \<Rightarrow> ('c, 'f) LegendValuesProps list" where
  "legendValues methods e =
     concat (map (\<lambda>p. case LegendContainer_renderLegendContent p of
                         Some (WithValues f) \<Rightarrow> [f methods]
                       | _ \<Rightarrow> [])
                 (legendContainers e))"

text \<open>The chart returned an element, and \<open>P\<close> holds of it.\<close>

definition renders ::
  "('c, 'f, 'm, 'l) ChartRender \<Rightarrow> (('c, 'f, 'm, 'l) Element \<Rightarrow> bool) \<Rightarrow> bool" where
  "renders r P = (case returned r of Inr (Some tree) \<Rightarrow> P tree | _ \<Rightarrow> False)"

section \<open>The tooltip content\<close>

text \<open>
  \<^verbatim>\<open>TooltipContent\<close> (the second source file). \<open>'sc\<close> and \<open>'ls\<close> are the types
  \<^verbatim>\<open>SeriesColor\<close> and \<^verbatim>\<open>LineStyle\<close>, which the component only passes to
  \<^verbatim>\<open>LinePreview\<close>.
\<close>

record TooltipPoint =
  TooltipPoint_label :: string
  TooltipPoint_value :: string

record ('sc, 'ls) TooltipData =
  TooltipData_name :: string
  TooltipData_point :: TooltipPoint
  TooltipData_color :: 'sc
  TooltipData_lineStyle :: 'ls

datatype ('sc, 'ls) TooltipElement =
    TooltipDiv string "('sc, 'ls) TooltipElement list"
  | KeyedFragment TemplateLiteral "('sc, 'ls) TooltipElement list"
  | LinePreview 'sc 'ls
  | Paragraph string string

text \<open>The callback of \<^verbatim>\<open>data.map\<close>: one fragment for the entry at \<open>index\<close>.\<close>

definition tooltipGroup :: "nat \<Rightarrow> ('sc, 'ls) TooltipData \<Rightarrow> ('sc, 'ls) TooltipElement" where
  "tooltipGroup index d =
     KeyedFragment [Subst (JSString (TooltipData_name d)), Quasi ''-'', Subst (JSNumber (real index))]
       [LinePreview (TooltipData_color d) (TooltipData_lineStyle d),
        Paragraph ''Name'' (TooltipPoint_label (TooltipData_point d)),
        Paragraph ''Value'' (TooltipPoint_value (TooltipData_point d))]"

definition TooltipContent :: "('sc, 'ls) TooltipData list \<Rightarrow> ('sc, 'ls) TooltipElement" where
  "TooltipContent d =
     TooltipDiv ''Container'' (map (\<lambda>(index, x). tooltipGroup index x) (List.enumerate 0 d))"

definition children :: "('sc, 'ls) TooltipElement \<Rightarrow> ('sc, 'ls) TooltipElement list" where
  "children e = (case e of TooltipDiv c cs \<Rightarrow> cs | KeyedFragment k cs \<Rightarrow> cs | _ \<Rightarrow> [])"

section \<open>Concrete inputs\<close>

text \<open>
  Inputs on which the definitions are run below. Colours are strings, functions are
  numbered handles. \<open>layout\<close> stands in for d3's pie layout with sorting off and no
  padding: one datum per point in input order, the circle divided in proportion to the
  positive values.
\<close>

fun layoutFrom :: "real \<Rightarrow> real \<Rightarrow> nat \<Rightarrow> DataPoint list \<Rightarrow> PieArcDatum list" where
  "layoutFrom k a0 i [] = []"
| "layoutFrom k a0 i (p # ps) =
     (let v = (case DataPoint_value p of None \<Rightarrow> 0 | Some x \<Rightarrow> x);
          a1 = a0 + (if v > 0 then v * k else 0)
      in \<lparr>PieArcDatum_data = p, PieArcDatum_value = v, PieArcDatum_index = i,
          PieArcDatum_startAngle = a0, PieArcDatum_endAngle = a1, PieArcDatum_padAngle = 0\<rparr>
         # layoutFrom k a1 (Suc i) ps)"

definition layout :: "DataPoint list \<Rightarrow> PieArcDatum list" where
  "layout pts =
     (let s = foldl (\<lambda>acc p. case DataPoint_value p of None \<Rightarrow> acc
                               | Some v \<Rightarrow> if v > 0 then acc + v else acc) 0 pts;
          k = (if s \<noteq> 0 then FULL_CIRCLE / s else 0)
      in layoutFrom k 0 0 pts)"

definition legendOf :: "bool \<Rightarrow> real \<Rightarrow> real \<Rightarrow> (string, nat) UseLegendProps \<Rightarrow> (nat, string list) UseLegendResult" where
  "legendOf mounted h w args =
     \<lparr>UseLegendResult_height = h,
      UseLegendResult_width = w,
      UseLegendResult_legend = [''legend''],
      UseLegendResult_setLegendDimensions = 7,
      UseLegendResult_isLegendMounted = mounted\<rparr>"

definition envWith :: "bool \<Rightarrow> real \<Rightarrow> real \<Rightarrow> (string, nat, string list) Env" where
  "envWith mounted h w =
     \<lparr>useChartContext_shouldAnimate = True,
      useUniqueId = (\<lambda>prefix. prefix @ ''-1''),
      useTheme = \<lparr>Theme_arc = \<lparr>ArcTheme_thickness = 18, ArcTheme_cornerRadius = 2\<rparr>,
                  Theme_grid = \<lparr>GridTheme_color = ''grid''\<rparr>\<rparr>,
      clamp = (\<lambda>amount lo hi. if enat (max amount lo) \<le> hi then max amount lo else the_enat hi),
      getSeriesColors = (\<lambda>n t. take n [''c0'', ''c1'', ''c2'', ''c3'']),
      useLegend = legendOf mounted h w,
      pie = layout,
      getAnimationDelayForItems = (\<lambda>n. 100),
      getContainerAlignmentForLegend = (\<lambda>position. Map.empty),
      COLOR_VISION_SINGLE_ITEM = ''singleItem'',
      THIN_ARC_CORNER_THICKNESS = 2\<rparr>"

definition propsWith :: "string DataSeries list \<Rightarrow> ChartState \<Rightarrow> bool \<Rightarrow> (string, nat, unit) ChartProps" where
  "propsWith d s legendShown =
     \<lparr>data = d,
      labelFormatter = 1,
      legendPosition = Some ''right'',
      seriesNameFormatter = 2,
      showLegend = legendShown,
      showLegendValues = True,
      state = s,
      theme = ''Default'',
      accessibilityLabel = None,
      comparisonMetric = None,
      dimensions = Some \<lparr>Dimensions_height = 200, Dimensions_width = 600\<rparr>,
      errorText = None,
      legendFullWidth = None,
      renderInnerValueContent = None,
      renderLegendContent = None,
      renderHiddenLegendLabel = None,
      total = None\<rparr>"

text \<open>Two series of one point each; one series of two points; one series whose point is 0.\<close>

definition twoSeries :: "string DataSeries list" where
  "twoSeries =
     [\<lparr>DataSeries_data = [\<lparr>DataPoint_key = KeyString ''a'', DataPoint_value = Some 1\<rparr>],
       DataSeries_name = Some ''A'', DataSeries_color = Some ''red''\<rparr>,
      \<lparr>DataSeries_data = [\<lparr>DataPoint_key = KeyString ''b'', DataPoint_value = Some 3\<rparr>],
       DataSeries_name = Some ''B'', DataSeries_color = None\<rparr>]"

definition oneSeriesTwoPoints :: "string DataSeries list" where
  "oneSeriesTwoPoints =
     [\<lparr>DataSeries_data = [\<lparr>DataPoint_key = KeyString ''a'', DataPoint_value = Some 1\<rparr>,
                          \<lparr>DataPoint_key = KeyString ''b'', DataPoint_value = Some 2\<rparr>],
       DataSeries_name = Some ''A'', DataSeries_color = None\<rparr>]"

definition zeroSeries :: "string DataSeries list" where
  "zeroSeries =
     [\<lparr>DataSeries_data = [\<lparr>DataPoint_key = KeyString ''a'', DataPoint_value = Some 0\<rparr>],
       DataSeries_name = Some ''A'', DataSeries_color = None\<rparr>]"

text \<open>Two tooltip entries.\<close>

definition twoEntries :: "(string, string) TooltipData list" where
  "twoEntries =
     [\<lparr>TooltipData_name = ''Sales'',
       TooltipData_point = \<lparr>TooltipPoint_label = ''Monday'', TooltipPoint_value = ''$10''\<rparr>,
       TooltipData_color = ''purple'', TooltipData_lineStyle = ''solid''\<rparr>,
      \<lparr>TooltipData_name = ''Returns'',
       TooltipData_point = \<lparr>TooltipPoint_label = ''Tuesday'', TooltipPoint_value = ''$2''\<rparr>,
       TooltipData_color = ''gray'', TooltipData_lineStyle = ''dashed''\<rparr>]"

section \<open>The shape of the returned tree\<close>

lemma map_index_Inr_length: "map_index f i xs = Inr ys \<Longrightarrow> length ys = length xs"
  by (induction xs arbitrary: i ys) (auto split: sum.splits)

lemma map_index_succeeds:
  "(\<And>j. j < length xs \<Longrightarrow> \<exists>y. f (i + j) (xs ! j) = Inr y) \<Longrightarrow> \<exists>ys. map_index f i xs = Inr ys"
proof (induction xs arbitrary: i)
  case Nil
  then show ?case by simp
next
  case (Cons x xs)
  from Cons.prems [of 0] obtain y where y: "f i x = Inr y" by auto
  have "\<exists>ys. map_index f (Suc i) xs = Inr ys"
  proof (rule Cons.IH)
    fix j assume "j < length xs"
    then show "\<exists>y. f (Suc i + j) (xs ! j) = Inr y"
      using Cons.prems [of "Suc j"] by simp
  qed
  with y show ?case by auto
qed

lemma map_index_fails:
  "j < length xs \<Longrightarrow> f (i + j) (xs ! j) = Inl e \<Longrightarrow> \<exists>e'. map_index f i xs = Inl e'"
proof (induction xs arbitrary: i j)
  case Nil
  then show ?case by simp
next
  case (Cons x xs)
  show ?case
  proof (cases j)
    case 0
    with Cons.prems show ?thesis by simp
  next
    case (Suc k)
    with Cons.prems have "\<exists>e'. map_index f (Suc i) xs = Inl e'"
      using Cons.IH [of k "Suc i"] by simp
    then show ?thesis by (auto split: sum.splits)
  qed
qed

lemma concat_map_concat:
  "concat (map f (concat xss)) = concat (map (\<lambda>xs. concat (map f xs)) xss)"
  by (induction xss) auto

lemma slice_arcs:
  "slice an dl cid d cs act dia r cr th j x = Inr e
    \<Longrightarrow> arcsWithin h e = [(h, sliceArc an dl d cs act dia r cr th j x)]"
  by (auto simp add: slice_def Let_def split: option.splits)

lemma slice_nodes:
  "slice an dl cid d cs act dia r cr th j x = Inr e
    \<Longrightarrow> \<exists>a. nodes e = [G a [Arc (sliceArc an dl d cs act dia r cr th j x)],
                       Arc (sliceArc an dl d cs act dia r cr th j x)]"
  by (auto simp add: slice_def Let_def split: option.splits)

lemma slices_arcs:
  "map_index (slice an dl cid d cs act dia r cr th) i xs = Inr ys
    \<Longrightarrow> concat (map (arcsWithin h) ys)
        = map (\<lambda>(j, x). (h, sliceArc an dl d cs act dia r cr th j x)) (List.enumerate i xs)"
  by (induction xs arbitrary: i ys) (auto split: sum.splits simp add: slice_arcs)

lemma legendContainers_simps [simp]:
  "legendContainers (Div c s es) = concat (map legendContainers es)"
  "legendContainers (Fragment es) = concat (map legendContainers es)"
  "legendContainers (Svg a es) = concat (map legendContainers es)"
  "legendContainers (G g es) = concat (map legendContainers es)"
  "legendContainers (LegendContainer p) = [p]"
  "legendContainers (Span c t) = []"
  "legendContainers (Arc ar) = []"
  "legendContainers (InnerValue iv) = []"
  "legendContainers (ChartSkeleton sk) = []"
  by (simp_all add: legendContainers_def [abs_def] concat_map_concat comp_def)

lemma innerValues_simps [simp]:
  "innerValues (Div c s es) = concat (map innerValues es)"
  "innerValues (Fragment es) = concat (map innerValues es)"
  "innerValues (Svg a es) = concat (map innerValues es)"
  "innerValues (G g es) = concat (map innerValues es)"
  "innerValues (InnerValue iv) = [iv]"
  "innerValues (Span c t) = []"
  "innerValues (Arc ar) = []"
  "innerValues (LegendContainer p) = []"
  "innerValues (ChartSkeleton sk) = []"
  by (simp_all add: innerValues_def [abs_def] concat_map_concat comp_def)

lemma svgs_simps [simp]:
  "svgs (Div c s es) = concat (map svgs es)"
  "svgs (Fragment es) = concat (map svgs es)"
  "svgs (Svg a es) = a # concat (map svgs es)"
  "svgs (G g es) = concat (map svgs es)"
  "svgs (InnerValue iv) = []"
  "svgs (Span c t) = []"
  "svgs (Arc ar) = []"
  "svgs (LegendContainer p) = []"
  "svgs (ChartSkeleton sk) = []"
  by (simp_all add: svgs_def [abs_def] concat_map_concat comp_def)

lemma slices_others:
  "map_index (slice an dl cid d cs act dia r cr th) i xs = Inr ys \<Longrightarrow> e \<in> set ys
    \<Longrightarrow> legendContainers e = [] \<and> innerValues e = [] \<and> svgs e = []"
  by (induction xs arbitrary: i ys)
     (auto split: sum.splits option.splits simp add: slice_def Let_def)

lemma shapes_arcs:
  "shapes env props st = Inr ss \<Longrightarrow>
     concat (map (arcsWithin False) ss) =
       (if emptyState (pieChartData env props) (points (data props))
        then [(True, placeholderArc env props)]
        else map (Pair False) (sliceArcsOf env props st))"
  by (auto simp add: shapes_def sliceArcsOf_def slices_arcs split: if_splits)

lemma shapes_others:
  "shapes env props st = Inr ss \<Longrightarrow>
     concat (map legendContainers ss) = [] \<and> concat (map innerValues ss) = []
     \<and> concat (map svgs ss) = []"
  by (auto simp add: shapes_def slices_others split: if_splits)

lemma donutChildren_arcs:
  "donutChildren env props st = Inr cs \<Longrightarrow>
     concat (map (arcsWithin False) cs) =
       (if state props = Success \<and> UseLegendResult_isLegendMounted (negotiated env props) then
          (if emptyState (pieChartData env props) (points (data props))
           then [(True, placeholderArc env props)]
           else map (Pair False) (sliceArcsOf env props st))
        else [])"
  by (auto simp add: donutChildren_def svgChildren_def shapes_arcs
      split: if_splits sum.splits)

lemma donutChildren_others:
  "donutChildren env props st = Inr cs \<Longrightarrow>
     concat (map legendContainers cs) = []
     \<and> concat (map innerValues cs) = (if state props = Success then [innerValueProps env props st] else [])
     \<and> concat (map svgs cs) = (if state props = Success then [svgAttrs env props] else [])"
  by (auto simp add: donutChildren_def svgChildren_def shapes_others
      split: if_splits sum.splits)

lemma Chart_returned_tree:
  "returned (Chart env props st) = Inr (Some tree) \<longleftrightarrow>
     UseLegendResult_width (negotiated env props) \<noteq> 0
     \<and> UseLegendResult_height (negotiated env props) \<noteq> 0
     \<and> (\<exists>cs. donutChildren env props st = Inr cs
            \<and> tree = Div ''DonutWrapper'' (Some (dynamicStyles env props))
                       (Div ''Donut'' None cs #
                        (if showLegend props
                         then [LegendContainer (legendContainerProps env props st)]
                         else [])))"
  by (auto simp add: Chart_def Let_def split: sum.splits)

lemma Chart_arcs:
  "returned (Chart env props st) = Inr (Some tree) \<Longrightarrow>
     arcsWithin False tree =
       (if state props = Success \<and> UseLegendResult_isLegendMounted (negotiated env props) then
          (if emptyState (pieChartData env props) (points (data props))
           then [(True, placeholderArc env props)]
           else map (Pair False) (sliceArcsOf env props st))
        else [])"
  by (auto simp add: Chart_returned_tree donutChildren_arcs)

lemma Chart_sliceArcs:
  "returned (Chart env props st) = Inr (Some tree) \<Longrightarrow>
     sliceArcs tree =
       (if state props = Success \<and> UseLegendResult_isLegendMounted (negotiated env props)
           \<and> \<not> emptyState (pieChartData env props) (points (data props))
        then sliceArcsOf env props st else [])"
  by (simp add: sliceArcs_def Chart_arcs comp_def)

lemma Chart_placeholderArcs:
  "returned (Chart env props st) = Inr (Some tree) \<Longrightarrow>
     placeholderArcs tree =
       (if state props = Success \<and> UseLegendResult_isLegendMounted (negotiated env props)
           \<and> emptyState (pieChartData env props) (points (data props))
        then [placeholderArc env props] else [])"
  by (simp add: placeholderArcs_def Chart_arcs comp_def)

lemma Chart_legendContainers:
  "returned (Chart env props st) = Inr (Some tree) \<Longrightarrow>
     legendContainers tree = (if showLegend props then [legendContainerProps env props st] else [])"
  by (auto simp add: Chart_returned_tree donutChildren_others)

lemma Chart_innerValues:
  "returned (Chart env props st) = Inr (Some tree) \<Longrightarrow>
     innerValues tree = (if state props = Success then [innerValueProps env props st] else [])"
  by (auto simp add: Chart_returned_tree donutChildren_others)

lemma Chart_svgs:
  "returned (Chart env props st) = Inr (Some tree) \<Longrightarrow>
     svgs tree = (if state props = Success then [svgAttrs env props] else [])"
  by (auto simp add: Chart_returned_tree donutChildren_others)

subsection \<open>When the render succeeds and when it throws\<close>

lemma foldl_append_concat:
  "foldl (\<lambda>prev s. prev @ f s) acc d = acc @ concat (map f d)"
  by (induction d arbitrary: acc) auto

lemma points_concat: "points d = concat (map DataSeries_data d)"
  by (simp add: points_def foldl_append_concat)

lemma points_single:
  "list_all (\<lambda>s. length (DataSeries_data s) = 1) d
    \<Longrightarrow> length (points d) = length d \<and> (\<forall>i<length d. DataSeries_data (d ! i) = [points d ! i])"
proof (induction d)
  case Nil
  then show ?case by (simp add: points_concat)
next
  case (Cons s d)
  then obtain p where p: "DataSeries_data s = [p]"
    by (cases "DataSeries_data s") auto
  with Cons show ?case
    by (auto simp add: points_concat nth_Cons split: nat.splits)
qed

lemma slice_succeeds:
  "j < length d \<Longrightarrow> \<exists>e. slice an dl cid d cs act dia r cr th j x = Inr e"
  by (simp add: slice_def Let_def at_index_def)

lemma slice_fails:
  "\<not> j < length d \<Longrightarrow> slice an dl cid d cs act dia r cr th j x = Inl TypeError"
  by (simp add: slice_def Let_def at_index_def)

lemma shapes_succeeds:
  "emptyState (pieChartData env props) (points (data props))
     \<or> length (pieChartData env props) \<le> length (data props)
   \<Longrightarrow> \<exists>ss. shapes env props st = Inr ss"
  unfolding shapes_def
  by (auto intro!: map_index_succeeds slice_succeeds)

lemma shapes_fails:
  fixes env :: "('c, 'f, 'l) Env" and props :: "('c, 'f, 'm) ChartProps"
  assumes "\<not> emptyState (pieChartData env props) (points (data props))"
    and "length (data props) < length (pieChartData env props)"
  shows "(shapes env props st :: RenderError + ('c, 'f, 'm, 'l) Element list) = Inl TypeError"
proof -
  let ?f = "(slice :: _ \<Rightarrow> _ \<Rightarrow> _ \<Rightarrow> _ \<Rightarrow> _ \<Rightarrow> _ \<Rightarrow> _ \<Rightarrow> _ \<Rightarrow> _ \<Rightarrow> _ \<Rightarrow> _ \<Rightarrow> _ \<Rightarrow> RenderError + ('c, 'f, 'm, 'l) Element)
             (useChartContext_shouldAnimate env)
             (getAnimationDelayForItems env (length (pieChartData env props)))
             (useUniqueId env ''Donut'') (data props) (seriesColor env props) (activeIndex st)
             (diameter env props) (diameter env props / 2)
             (ArcTheme_cornerRadius (Theme_arc (useTheme env))) (arcThickness env props)"
  have "?f (0 + length (data props)) (pieChartData env props ! length (data props)) = Inl TypeError"
    by (simp add: slice_fails)
  with assms(2) have "\<exists>e'. map_index ?f 0 (pieChartData env props) = Inl e'"
    by (rule map_index_fails)
  then obtain e' where "map_index ?f 0 (pieChartData env props) = Inl e'" ..
  moreover have "e' = TypeError" by (cases e') simp
  ultimately show ?thesis using assms(1) by (simp add: shapes_def)
qed

lemma Chart_returns_tree:
  assumes "UseLegendResult_width (negotiated env props) \<noteq> 0"
    and "UseLegendResult_height (negotiated env props) \<noteq> 0"
    and "state props \<noteq> Success \<or> \<not> UseLegendResult_isLegendMounted (negotiated env props)
          \<or> emptyState (pieChartData env props) (points (data props))
          \<or> length (pieChartData env props) \<le> length (data props)"
  shows "\<exists>tree. returned (Chart env props st) = Inr (Some tree)"
proof -
  have "\<exists>cs. donutChildren env props st = Inr cs"
  proof (cases "state props = Success \<and> UseLegendResult_isLegendMounted (negotiated env props)")
    case True
    with assms(3) obtain ss where "shapes env props st = Inr ss"
      using shapes_succeeds [of env props st] by auto
    with True show ?thesis by (simp add: donutChildren_def svgChildren_def)
  next
    case False
    then show ?thesis by (auto simp add: donutChildren_def svgChildren_def)
  qed
  with assms(1,2) show ?thesis by (simp add: Chart_returned_tree)
qed

lemma Chart_throws_iff:
  "returned (Chart env props st) = Inl TypeError \<longleftrightarrow>
     UseLegendResult_width (negotiated env props) \<noteq> 0
     \<and> UseLegendResult_height (negotiated env props) \<noteq> 0
     \<and> state props = Success
     \<and> UseLegendResult_isLegendMounted (negotiated env props)
     \<and> \<not> emptyState (pieChartData env props) (points (data props))
     \<and> length (data props) < length (pieChartData env props)"
  (is "?l \<longleftrightarrow> ?r")
proof
  assume ?l
  show ?r
  proof (rule ccontr)
    assume n: "\<not> ?r"
    show False
    proof (cases "UseLegendResult_width (negotiated env props) = 0
                  \<or> UseLegendResult_height (negotiated env props) = 0")
      case True
      with \<open>?l\<close> show False by (auto simp add: Chart_def Let_def)
    next
      case False
      with n have "\<exists>tree. returned (Chart env props st) = Inr (Some tree)"
        by (intro Chart_returns_tree) auto
      with \<open>?l\<close> show False by auto
    qed
  qed
next
  assume ?r
  then have "shapes env props st = Inl TypeError" by (simp add: shapes_fails)
  with \<open>?r\<close> show ?l
    by (simp add: Chart_def Let_def donutChildren_def svgChildren_def)
qed

subsection \<open>The concrete inputs, evaluated\<close>

lemma fx_neg [simp]:
  "UseLegendResult_width (negotiated (envWith m h w) (propsWith d s l)) = w"
  "UseLegendResult_height (negotiated (envWith m h w) (propsWith d s l)) = h"
  "UseLegendResult_isLegendMounted (negotiated (envWith m h w) (propsWith d s l)) = m"
  "UseLegendResult_setLegendDimensions (negotiated (envWith m h w) (propsWith d s l)) = 7"
  "UseLegendResult_legend (negotiated (envWith m h w) (propsWith d s l)) = [''legend'']"
  by (simp_all add: envWith_def propsWith_def legendOf_def negotiated_def)

lemma fx_props [simp]:
  "state (propsWith d s l) = s" "data (propsWith d s l) = d" "showLegend (propsWith d s l) = l"
  by (simp_all add: propsWith_def)

lemma fx_pie [simp]: "pieChartData (envWith m h w) (propsWith d s l) = layout (points d)"
  by (simp add: pieChartData_def envWith_def)

lemma pts_two: "points twoSeries = [\<lparr>DataPoint_key = KeyString ''a'', DataPoint_value = Some 1\<rparr>, \<lparr>DataPoint_key = KeyString ''b'', DataPoint_value = Some 3\<rparr>]"
  by (simp add: points_def twoSeries_def)

lemma layout_data: "map PieArcDatum_data (layoutFrom k a i pts) = pts"
  by (induction pts arbitrary: a i) (simp_all add: Let_def)

lemma layout_contract [simp]: "map PieArcDatum_data (layout pts) = pts"
  by (simp add: layout_def Let_def layout_data)

lemma layout_length [simp]: "length (layout pts) = length pts"
  using layout_contract [of pts] by (metis length_map)

lemma fx_two_len [simp]: "length (points twoSeries) = 2"
  by (simp add: pts_two)

lemma fx_two_nonempty [simp]: "\<not> emptyState (layout (points twoSeries)) (points twoSeries)"
  by (simp add: emptyState_def isEveryValueZero_def pts_two)

lemma fx_two_data [simp]: "length twoSeries = 2"
  by (simp add: twoSeries_def)

lemma fx_two_single: "list_all (\<lambda>s. length (DataSeries_data s) = 1) twoSeries"
  by (simp add: twoSeries_def)

lemma fx_two_nonzero: "\<not> isEveryValueZero (points twoSeries)"
  by (simp add: isEveryValueZero_def pts_two)

lemma fx_zero: "isEveryValueZero (points zeroSeries)"
  by (simp add: isEveryValueZero_def points_def zeroSeries_def)

section \<open>Properties of the donut chart\<close>

text \<open>
  C2. The chart registers its handler for events of type \<^verbatim>\<open>COLOR_VISION_SINGLE_ITEM\<close>;
  the handler, run on an event that carries index \<open>i\<close>, leaves \<open>activeIndex = i\<close>; and
  at every state, whenever the chart returns a tree, the \<^verbatim>\<open>activeIndex\<close> of that state
  is the value passed to every slice's \<^verbatim>\<open>Arc\<close>, to \<^verbatim>\<open>InnerValue\<close> and to the
  \<^verbatim>\<open>LegendValues\<close> that the legend container renders through the chart's closure. So
  after the event, all of them are handed \<open>i\<close>. (The placeholder ring of the empty
  state is no slice and is given no \<^verbatim>\<open>activeIndex\<close>.)
\<close>

theorem activeIndex_shared:
  "WatchColorVisionEvents_type (called_useWatchColorVisionEvents (Chart env props st))
      = COLOR_VISION_SINGLE_ITEM env
   \<and> activeIndex (WatchColorVisionEvents_onIndexChange
        (called_useWatchColorVisionEvents (Chart env props st)) ev st)
      = ColorVisionEventDetail_index (ColorVisionEventReturn_detail ev)
   \<and> (returned (Chart env props st) = Inr (Some tree) \<longrightarrow>
        (\<forall>a \<in> set (sliceArcs tree). Arc_activeIndex a = Some (activeIndex st))
        \<and> (\<forall>p \<in> set (innerValues tree). InnerValue_activeIndex p = activeIndex st)
        \<and> (\<forall>p \<in> set (legendValues methods tree). LegendValues_activeIndex p = activeIndex st))"
proof (intro conjI impI)
  show "WatchColorVisionEvents_type (called_useWatchColorVisionEvents (Chart env props st))
      = COLOR_VISION_SINGLE_ITEM env"
    by (simp add: Chart_def Let_def)
  show "activeIndex (WatchColorVisionEvents_onIndexChange
        (called_useWatchColorVisionEvents (Chart env props st)) ev st)
      = ColorVisionEventDetail_index (ColorVisionEventReturn_detail ev)"
    by (simp add: Chart_def Let_def onIndexChange_def setActiveIndex_def)
next
  assume t: "returned (Chart env props st) = Inr (Some tree)"
  show "\<forall>a \<in> set (sliceArcs tree). Arc_activeIndex a = Some (activeIndex st)"
    by (auto simp add: Chart_sliceArcs [OF t] sliceArcsOf_def sliceArc_def)
  show "\<forall>p \<in> set (innerValues tree). InnerValue_activeIndex p = activeIndex st"
    by (simp add: Chart_innerValues [OF t] innerValueProps_def)
  show "\<forall>p \<in> set (legendValues methods tree). LegendValues_activeIndex p = activeIndex st"
    by (simp add: legendValues_def Chart_legendContainers [OF t] legendContainerProps_def
        Let_def renderLegendContentWithValues_def split: option.splits)
qed


theorem activeIndex_shared_witness:
  "renders
     (Chart (envWith True 200 300) (propsWith twoSeries Success True)
        (WatchColorVisionEvents_onIndexChange
           (called_useWatchColorVisionEvents
              (Chart (envWith True 200 300) (propsWith twoSeries Success True) initialState))
           \<lparr>ColorVisionEventReturn_detail = \<lparr>ColorVisionEventDetail_index = 1\<rparr>\<rparr> initialState))
     (\<lambda>tree. length (sliceArcs tree) = 2
         \<and> list_all (\<lambda>a. Arc_activeIndex a = Some 1) (sliceArcs tree)
         \<and> length (innerValues tree) = 1
         \<and> list_all (\<lambda>p. InnerValue_activeIndex p = 1) (innerValues tree)
         \<and> length (legendValues \<lparr>getColorVisionStyles = 3, getColorVisionEventAttrs = 4\<rparr> tree) = 1
         \<and> list_all (\<lambda>p. LegendValues_activeIndex p = 1)
              (legendValues \<lparr>getColorVisionStyles = 3, getColorVisionEventAttrs = 4\<rparr> tree))"
proof -
  let ?E = "envWith True 200 300"
  let ?P = "propsWith twoSeries Success True"
  let ?ev = "\<lparr>ColorVisionEventReturn_detail = \<lparr>ColorVisionEventDetail_index = 1\<rparr>\<rparr>"
  let ?M = "\<lparr>getColorVisionStyles = 3 :: nat, getColorVisionEventAttrs = 4\<rparr>"
  define st1 where "st1 = WatchColorVisionEvents_onIndexChange
           (called_useWatchColorVisionEvents (Chart ?E ?P initialState)) ?ev initialState"
  obtain tree where t: "returned (Chart ?E ?P st1) = Inr (Some tree)"
    using Chart_returns_tree [of ?E ?P st1] by auto
  have a: "activeIndex st1 = 1"
    using activeIndex_shared [of ?E ?P initialState ?ev tree ?M] by (simp add: st1_def)
  have all: "(\<forall>a \<in> set (sliceArcs tree). Arc_activeIndex a = Some 1)
        \<and> (\<forall>p \<in> set (innerValues tree). InnerValue_activeIndex p = 1)
        \<and> (\<forall>p \<in> set (legendValues ?M tree). LegendValues_activeIndex p = 1)"
    using activeIndex_shared [of ?E ?P st1 ?ev tree ?M] t a by simp
  have "length (sliceArcs tree) = 2"
    by (simp add: Chart_sliceArcs [OF t] sliceArcsOf_def)
  moreover have "length (innerValues tree) = 1"
    by (simp add: Chart_innerValues [OF t])
  moreover have "length (legendValues ?M tree) = 1"
    by (simp add: legendValues_def Chart_legendContainers [OF t] legendContainerProps_def
        Let_def propsWith_def positionOf_def legendDirection_def)
  ultimately show ?thesis
    using all t unfolding renders_def st1_def [symmetric] by (simp add: list_all_iff)
qed

text \<open>
  C4, as stated, fails where the negotiated width or height is \<open>0\<close>: the chart returns
  \<^verbatim>\<open>null\<close> before any \<^verbatim>\<open>LegendContainer\<close> is created, also with
  \<^verbatim>\<open>showLegend\<close> true. What holds: whenever the chart returns a tree, the negotiated
  width and height are non-zero, the drawing's size is the smaller of the two (both taken
  from \<^verbatim>\<open>useLegend\<close>), and the tree holds exactly one \<^verbatim>\<open>LegendContainer\<close> when
  \<^verbatim>\<open>showLegend\<close> is true and none otherwise; its \<^verbatim>\<open>onDimensionChange\<close> is the
  \<^verbatim>\<open>setLegendDimensions\<close> that \<^verbatim>\<open>useLegend\<close> returned and its \<^verbatim>\<open>data\<close> is the
  \<^verbatim>\<open>legend\<close> that \<^verbatim>\<open>useLegend\<close> returned. What the setter does with a reported
  size is decided in \<^verbatim>\<open>useLegend\<close>, which is a parameter here.
\<close>

theorem legend_wiring:
  "returned (Chart env props st) = Inr (Some tree) \<Longrightarrow>
     (showLegend props \<longrightarrow>
        (\<exists>lc. legendContainers tree = [lc]
           \<and> LegendContainer_onDimensionChange lc
               = UseLegendResult_setLegendDimensions (negotiated env props)
           \<and> LegendContainer_data lc = UseLegendResult_legend (negotiated env props)))
     \<and> (\<not> showLegend props \<longrightarrow> legendContainers tree = [])
     \<and> UseLegendResult_width (negotiated env props) \<noteq> 0
     \<and> UseLegendResult_height (negotiated env props) \<noteq> 0
     \<and> (\<forall>a \<in> set (svgs tree).
           Svg_height a = min (UseLegendResult_height (negotiated env props))
                              (UseLegendResult_width (negotiated env props))
           \<and> Svg_width a = min (UseLegendResult_height (negotiated env props))
                               (UseLegendResult_width (negotiated env props)))"
proof (intro conjI impI)
  assume t: "returned (Chart env props st) = Inr (Some tree)"
  show "UseLegendResult_width (negotiated env props) \<noteq> 0"
    and "UseLegendResult_height (negotiated env props) \<noteq> 0"
    using t by (simp_all add: Chart_returned_tree)
  show "\<forall>a \<in> set (svgs tree).
           Svg_height a = min (UseLegendResult_height (negotiated env props))
                              (UseLegendResult_width (negotiated env props))
           \<and> Svg_width a = min (UseLegendResult_height (negotiated env props))
                               (UseLegendResult_width (negotiated env props))"
    by (simp add: Chart_svgs [OF t] svgAttrs_def Let_def diameter_def)
  {
    assume "showLegend props"
    then show "\<exists>lc. legendContainers tree = [lc]
           \<and> LegendContainer_onDimensionChange lc
               = UseLegendResult_setLegendDimensions (negotiated env props)
           \<and> LegendContainer_data lc = UseLegendResult_legend (negotiated env props)"
      by (simp add: Chart_legendContainers [OF t] legendContainerProps_def Let_def)
  }
  {
    assume "\<not> showLegend props"
    then show "legendContainers tree = []"
      by (simp add: Chart_legendContainers [OF t])
  }
qed

theorem legend_wiring_witness:
  "renders (Chart (envWith True 200 300) (propsWith twoSeries Success True) initialState)
     (\<lambda>tree. map LegendContainer_onDimensionChange (legendContainers tree) = [7]
        \<and> map LegendContainer_data (legendContainers tree) = [[''legend'']]
        \<and> map Svg_height (svgs tree) = [200] \<and> map Svg_width (svgs tree) = [200])"
proof -
  let ?E = "envWith True 200 300"
  let ?P = "propsWith twoSeries Success True"
  obtain tree where t: "returned (Chart ?E ?P initialState) = Inr (Some tree)"
    using Chart_returns_tree [of ?E ?P initialState] by auto
  from legend_wiring [OF t]
  obtain lc where "legendContainers tree = [lc]"
    and "LegendContainer_onDimensionChange lc = 7" and "LegendContainer_data lc = [''legend'']"
    and "\<forall>a \<in> set (svgs tree). Svg_height a = 200 \<and> Svg_width a = 200"
    by auto
  moreover have "length (svgs tree) = 1"
    by (simp add: Chart_svgs [OF t])
  ultimately show ?thesis
    using t unfolding renders_def by (cases "svgs tree") auto
qed

theorem legend_wiring_counterexample:
  "showLegend (propsWith twoSeries Success True)
   \<and> returned (Chart (envWith True 200 0) (propsWith twoSeries Success True) initialState) = Inr None"
  by (simp add: Chart_def Let_def)


text \<open>
  C6, as stated, fails where the legend is not mounted: the drawing is then left empty.
  It also presupposes that slice \<open>i\<close> belongs to series \<open>i\<close>. What holds: in the
  success state, with non-zero negotiated width and height, the legend mounted, exactly one
  data point in every series, a data set that is neither empty nor all zero, and a pie
  layout that returns one datum per point in input order, the chart returns a tree with
  no placeholder and exactly one slice \<^verbatim>\<open>Arc\<close> per point; the \<open>i\<close>-th one carries index
  \<open>i\<close> and the start and end angle of the \<open>i\<close>-th datum of the layout, and its colour is
  the colour of series \<open>i\<close>, the owner of point \<open>i\<close>, when that is set, and otherwise
  \<^verbatim>\<open>seriesColor[i]\<close>.
\<close>

theorem one_arc_per_point:
  assumes success: "state props = Success"
    and width: "UseLegendResult_width (negotiated env props) \<noteq> 0"
    and height: "UseLegendResult_height (negotiated env props) \<noteq> 0"
    and mounted: "UseLegendResult_isLegendMounted (negotiated env props)"
    and single: "list_all (\<lambda>s. length (DataSeries_data s) = 1) (data props)"
    and nonempty: "points (data props) \<noteq> []"
    and nonzero: "\<not> isEveryValueZero (points (data props))"
    and contract: "map PieArcDatum_data (pie env (points (data props))) = points (data props)"
  shows "\<exists>tree. returned (Chart env props st) = Inr (Some tree)
           \<and> placeholderArcs tree = []
           \<and> length (sliceArcs tree) = length (points (data props))
           \<and> (\<forall>i < length (points (data props)).
                 DataSeries_data (data props ! i) = [points (data props) ! i]
                 \<and> Arc_index (sliceArcs tree ! i) = Some i
                 \<and> Arc_startAngle (sliceArcs tree ! i)
                     = PieArcDatum_startAngle (pie env (points (data props)) ! i)
                 \<and> Arc_endAngle (sliceArcs tree ! i)
                     = PieArcDatum_endAngle (pie env (points (data props)) ! i)
                 \<and> Arc_color (sliceArcs tree ! i)
                     = (case DataSeries_color (data props ! i) of
                          Some c \<Rightarrow> Some c
                        | None \<Rightarrow> at_index (seriesColor env props) i))"
proof -
  let ?pts = "points (data props)"
  have len_pie: "length (pieChartData env props) = length ?pts"
    using contract by (metis length_map pieChartData_def)
  have len_pts: "length ?pts = length (data props)"
    and owner: "\<forall>i<length (data props). DataSeries_data (data props ! i) = [?pts ! i]"
    using points_single [OF single] by simp_all
  have ne: "\<not> emptyState (pieChartData env props) ?pts"
    using nonempty nonzero len_pie by (simp add: emptyState_def)
  obtain tree where t: "returned (Chart env props st) = Inr (Some tree)"
    using Chart_returns_tree [of env props st] width height len_pie len_pts by auto
  have slices: "sliceArcs tree = sliceArcsOf env props st"
    using Chart_sliceArcs [OF t] success mounted ne by simp
  have "placeholderArcs tree = []"
    using Chart_placeholderArcs [OF t] ne by simp
  moreover have "length (sliceArcs tree) = length ?pts"
    by (simp add: slices sliceArcsOf_def len_pie)
  moreover have "\<forall>i < length ?pts.
                 DataSeries_data (data props ! i) = [?pts ! i]
                 \<and> Arc_index (sliceArcs tree ! i) = Some i
                 \<and> Arc_startAngle (sliceArcs tree ! i)
                     = PieArcDatum_startAngle (pie env ?pts ! i)
                 \<and> Arc_endAngle (sliceArcs tree ! i)
                     = PieArcDatum_endAngle (pie env ?pts ! i)
                 \<and> Arc_color (sliceArcs tree ! i)
                     = (case DataSeries_color (data props ! i) of
                          Some c \<Rightarrow> Some c
                        | None \<Rightarrow> at_index (seriesColor env props) i)"
  proof (intro allI impI)
    fix i assume i: "i < length ?pts"
    then have ip: "i < length (pieChartData env props)" and id: "i < length (data props)"
      using len_pie len_pts by simp_all
    have "sliceArcs tree ! i =
        sliceArc (useChartContext_shouldAnimate env)
          (getAnimationDelayForItems env (length (pieChartData env props)))
          (data props) (seriesColor env props) (activeIndex st)
          (diameter env props) (diameter env props / 2)
          (ArcTheme_cornerRadius (Theme_arc (useTheme env))) (arcThickness env props)
          i (pieChartData env props ! i)"
      using ip by (simp add: slices sliceArcsOf_def nth_enumerate_eq)
    then show "DataSeries_data (data props ! i) = [?pts ! i]
                 \<and> Arc_index (sliceArcs tree ! i) = Some i
                 \<and> Arc_startAngle (sliceArcs tree ! i)
                     = PieArcDatum_startAngle (pie env ?pts ! i)
                 \<and> Arc_endAngle (sliceArcs tree ! i)
                     = PieArcDatum_endAngle (pie env ?pts ! i)
                 \<and> Arc_color (sliceArcs tree ! i)
                     = (case DataSeries_color (data props ! i) of
                          Some c \<Rightarrow> Some c
                        | None \<Rightarrow> at_index (seriesColor env props) i)"
      using owner id
      by (simp add: sliceArc_def sliceColor_def at_index_def pieChartData_def)
  qed
  ultimately show ?thesis using t by blast
qed


theorem one_arc_per_point_witness:
  "state (propsWith twoSeries Success True) = Success
   \<and> list_all (\<lambda>s. length (DataSeries_data s) = 1) (data (propsWith twoSeries Success True))
   \<and> renders (Chart (envWith True 200 300) (propsWith twoSeries Success True) initialState)
       (\<lambda>tree. placeholderArcs tree = []
          \<and> map Arc_index (sliceArcs tree) = [Some 0, Some 1]
          \<and> map Arc_color (sliceArcs tree) = [Some ''red'', Some ''c1''])"
proof -
  let ?E = "envWith True 200 300"
  let ?P = "propsWith twoSeries Success True"
  have contract: "map PieArcDatum_data (pie ?E (points (data ?P))) = points (data ?P)"
    by (simp add: envWith_def)
  have "points (data ?P) \<noteq> []"
    by (simp add: pts_two)
  then obtain tree where t: "returned (Chart ?E ?P initialState) = Inr (Some tree)"
    and p: "placeholderArcs tree = []"
    and l: "length (sliceArcs tree) = length (points (data ?P))"
    and a: "\<forall>i < length (points (data ?P)).
              Arc_index (sliceArcs tree ! i) = Some i
              \<and> Arc_color (sliceArcs tree ! i)
                  = (case DataSeries_color (data ?P ! i) of
                       Some c \<Rightarrow> Some c
                     | None \<Rightarrow> at_index (seriesColor ?E ?P) i)"
    using one_arc_per_point [of ?P ?E initialState] fx_two_single fx_two_nonzero contract
    by fastforce
  from l obtain x y where xy: "sliceArcs tree = [x, y]"
    by (auto simp add: length_Suc_conv eval_nat_numeral)
  have sc: "seriesColor ?E ?P = [''c0'', ''c1'']"
    by (simp add: seriesColor_def envWith_def propsWith_def twoSeries_def)
  have c: "DataSeries_color (twoSeries ! 0) = Some ''red''" "DataSeries_color (twoSeries ! 1) = None"
    by (simp_all add: twoSeries_def)
  from a [rule_format, of 0] a [rule_format, of 1] xy sc c
  have "Arc_index x = Some 0" "Arc_index y = Some 1"
    "Arc_color x = Some ''red''" "Arc_color y = Some ''c1''"
    by (simp_all add: at_index_def)
  with t p xy fx_two_single show ?thesis
    by (simp add: renders_def)
qed

theorem one_arc_per_point_counterexample:
  "state (propsWith twoSeries Success True) = Success
   \<and> points (data (propsWith twoSeries Success True)) \<noteq> []
   \<and> \<not> isEveryValueZero (points (data (propsWith twoSeries Success True)))
   \<and> renders (Chart (envWith False 200 300) (propsWith twoSeries Success True) initialState)
       (\<lambda>tree. sliceArcs tree = [] \<and> placeholderArcs tree = [])"
proof -
  let ?E = "envWith False 200 300"
  let ?P = "propsWith twoSeries Success True"
  obtain tree where t: "returned (Chart ?E ?P initialState) = Inr (Some tree)"
    using Chart_returns_tree [of ?E ?P initialState] by auto
  have "sliceArcs tree = []" "placeholderArcs tree = []"
    by (simp_all add: Chart_sliceArcs [OF t] Chart_placeholderArcs [OF t])
  with t fx_two_nonzero show ?thesis
    by (simp add: renders_def pts_two)
qed

text \<open>
  C9, as stated, fails outside the success state (the skeleton is drawn instead), and
  where the legend is not mounted or there is no room. What holds: in the success state,
  with non-zero negotiated width and height and the legend mounted, if there are no
  points or every point's value is \<open>0\<close>, the chart returns a tree with no slice and
  exactly one arc inside an \<^verbatim>\<open>aria-hidden\<close> group, from angle \<open>0\<close> to
  \<^verbatim>\<open>FULL_CIRCLE\<close>, in the theme's grid colour.
\<close>

theorem empty_state_placeholder:
  assumes success: "state props = Success"
    and width: "UseLegendResult_width (negotiated env props) \<noteq> 0"
    and height: "UseLegendResult_height (negotiated env props) \<noteq> 0"
    and mounted: "UseLegendResult_isLegendMounted (negotiated env props)"
    and empty: "points (data props) = [] \<or> isEveryValueZero (points (data props))"
  shows "\<exists>tree. returned (Chart env props st) = Inr (Some tree)
           \<and> sliceArcs tree = []
           \<and> placeholderArcs tree = [placeholderArc env props]
           \<and> Arc_startAngle (placeholderArc env props) = 0
           \<and> Arc_endAngle (placeholderArc env props) = FULL_CIRCLE
           \<and> Arc_color (placeholderArc env props) = Some (GridTheme_color (Theme_grid (useTheme env)))"
proof -
  from empty have "isEveryValueZero (points (data props))"
    by (auto simp add: isEveryValueZero_def)
  then have e: "emptyState (pieChartData env props) (points (data props))"
    by (simp add: emptyState_def)
  obtain tree where t: "returned (Chart env props st) = Inr (Some tree)"
    using Chart_returns_tree [of env props st] width height e by auto
  have "sliceArcs tree = []"
    using Chart_sliceArcs [OF t] e by simp
  moreover have "placeholderArcs tree = [placeholderArc env props]"
    using Chart_placeholderArcs [OF t] success mounted e by simp
  ultimately show ?thesis
    using t by (simp add: placeholderArc_def)
qed

theorem empty_state_placeholder_witness:
  "isEveryValueZero (points (data (propsWith zeroSeries Success True)))
   \<and> renders (Chart (envWith True 200 300) (propsWith zeroSeries Success True) initialState)
       (\<lambda>tree. sliceArcs tree = []
          \<and> map Arc_startAngle (placeholderArcs tree) = [0]
          \<and> map Arc_endAngle (placeholderArcs tree) = [FULL_CIRCLE]
          \<and> map Arc_color (placeholderArcs tree) = [Some ''grid''])"
proof -
  let ?E = "envWith True 200 300"
  let ?P = "propsWith zeroSeries Success True"
  obtain tree where "returned (Chart ?E ?P initialState) = Inr (Some tree)"
    and "sliceArcs tree = []"
    and "placeholderArcs tree = [placeholderArc ?E ?P]"
    and "Arc_startAngle (placeholderArc ?E ?P) = 0"
    and "Arc_endAngle (placeholderArc ?E ?P) = FULL_CIRCLE"
    and "Arc_color (placeholderArc ?E ?P) = Some (GridTheme_color (Theme_grid (useTheme ?E)))"
    using empty_state_placeholder [of ?P ?E initialState] fx_zero by auto
  then show ?thesis
    by (simp add: renders_def fx_zero envWith_def)
qed

theorem empty_state_placeholder_counterexample:
  "isEveryValueZero (points (data (propsWith zeroSeries Loading True)))
   \<and> renders (Chart (envWith True 200 300) (propsWith zeroSeries Loading True) initialState)
       (\<lambda>tree. placeholderArcs tree = [] \<and> sliceArcs tree = [])"
proof -
  let ?E = "envWith True 200 300"
  let ?P = "propsWith zeroSeries Loading True"
  obtain tree where t: "returned (Chart ?E ?P initialState) = Inr (Some tree)"
    using Chart_returns_tree [of ?E ?P initialState] by auto
  have "sliceArcs tree = []" "placeholderArcs tree = []"
    by (simp_all add: Chart_sliceArcs [OF t] Chart_placeholderArcs [OF t])
  with t show ?thesis
    by (simp add: renders_def fx_zero)
qed

text \<open>
  C8 does not hold of the code. The slices are indexed by the flattened points, the series
  by their place in \<^verbatim>\<open>data\<close>; as soon as there are more points than series (here: one
  series with two points) \<^verbatim>\<open>data[1]\<close> is \<open>undefined\<close> and \<^verbatim>\<open>data[index].name\<close>
  throws, while the line before it reads the colour with \<^verbatim>\<open>data[index]?.color\<close>.
  In general (\<open>Chart_throws_iff\<close>) the render throws exactly when it reaches the
  slices and the layout has more elements than \<^verbatim>\<open>data\<close> has series.
\<close>

theorem second_point_of_a_series_throws:
  "length (points oneSeriesTwoPoints) = 2
   \<and> length (pieChartData (envWith True 200 300) (propsWith oneSeriesTwoPoints Success True)) = 2
   \<and> at_index (data (propsWith oneSeriesTwoPoints Success True)) 1 = None
   \<and> returned (Chart (envWith True 200 300) (propsWith oneSeriesTwoPoints Success True) initialState)
       = Inl TypeError"
proof -
  have p: "length (points oneSeriesTwoPoints) = 2"
    by (simp add: points_def oneSeriesTwoPoints_def)
  moreover have "at_index oneSeriesTwoPoints (1::nat) = None"
    by (simp add: at_index_def oneSeriesTwoPoints_def)
  moreover have "\<not> emptyState (layout (points oneSeriesTwoPoints)) (points oneSeriesTwoPoints)"
    by (simp add: emptyState_def isEveryValueZero_def points_def oneSeriesTwoPoints_def)
  moreover have "length oneSeriesTwoPoints = 1"
    by (simp add: oneSeriesTwoPoints_def)
  ultimately show ?thesis
    by (simp add: Chart_throws_iff)
qed

text \<open>
  C10. Whatever the props, the state and the other modules are, when the width or the
  height that \<^verbatim>\<open>useLegend\<close> returns at this render is \<open>0\<close>, the chart returns
  \<^verbatim>\<open>null\<close>: no exception and no element.
\<close>

theorem Chart_null_when_no_space:
  "UseLegendResult_width (negotiated env props) = 0 \<or> UseLegendResult_height (negotiated env props) = 0
    \<Longrightarrow> returned (Chart env props st) = Inr None"
  by (auto simp add: Chart_def Let_def)

theorem Chart_null_when_no_space_witness:
  "UseLegendResult_width (negotiated (envWith True 200 0) (propsWith twoSeries Success True)) = 0
    \<and> returned (Chart (envWith True 200 0) (propsWith twoSeries Success True) initialState) = Inr None"
  using Chart_null_when_no_space
    [of "envWith True 200 0" "propsWith twoSeries Success True" initialState]
  by (simp add: envWith_def legendOf_def negotiated_def)

section \<open>Properties of the tooltip content\<close>

text \<open>
  C7. \<^verbatim>\<open>TooltipContent\<close> is a function of its \<^verbatim>\<open>data\<close> alone (it calls no hook): the
  container's children are one fragment per entry, in input order; the fragment of entry
  \<open>i\<close> holds the line preview with the entry's colour and line style, the entry's label
  and the entry's value, and nothing else. Its React key is made of the entry's name and
  its position \<open>i\<close>.
\<close>

theorem TooltipContent_groups:
  "TooltipContent d = TooltipDiv ''Container'' (children (TooltipContent d))
   \<and> length (children (TooltipContent d)) = length d
   \<and> (\<forall>i < length d.
        children (TooltipContent d) ! i =
          KeyedFragment
            [Subst (JSString (TooltipData_name (d ! i))), Quasi ''-'', Subst (JSNumber (real i))]
            [LinePreview (TooltipData_color (d ! i)) (TooltipData_lineStyle (d ! i)),
             Paragraph ''Name'' (TooltipPoint_label (TooltipData_point (d ! i))),
             Paragraph ''Value'' (TooltipPoint_value (TooltipData_point (d ! i)))])"
  by (simp add: TooltipContent_def children_def tooltipGroup_def nth_enumerate_eq)

theorem TooltipContent_groups_witness:
  "(1::nat) < length twoEntries
   \<and> length (children (TooltipContent twoEntries)) = 2
   \<and> children (TooltipContent twoEntries) ! 1 =
       KeyedFragment [Subst (JSString ''Returns''), Quasi ''-'', Subst (JSNumber 1)]
         [LinePreview ''gray'' ''dashed'', Paragraph ''Name'' ''Tuesday'', Paragraph ''Value'' ''$2'']"
  using TooltipContent_groups [of twoEntries]
  by (simp add: twoEntries_def)


end
